theory Spec2Isabelle
  imports Complex_Main
begin

section \<open>GreenOps planner: region scoring and plan generation (src/server.js)\<close>

text \<open>
  A shallow embedding of the planner of \<^verbatim>\<open>src/server.js\<close>. JavaScript numbers are
  modelled as exact rationals (\<^typ>\<open>rat\<close>): every statement below is about the
  arithmetic the code writes down, not about IEEE-754 rounding. Counts (array lengths,
  replicas) are natural numbers. Strings are \<^typ>\<open>string\<close>.
\<close>

subsection \<open>Region metadata\<close>

record region =
  id_region :: string
  label_region :: string
  defaultCarbonIntensity :: rat
  baseCost :: rat
  geoGroup :: string

definition REGIONS :: "region list" where
  "REGIONS =
    [\<lparr>id_region = ''LON1'', label_region = ''London, UK'',
      defaultCarbonIntensity = 260, baseCost = 24 / 100, geoGroup = ''eu''\<rparr>,
     \<lparr>id_region = ''FRA1'', label_region = ''Frankfurt, Germany'',
      defaultCarbonIntensity = 210, baseCost = 26 / 100, geoGroup = ''eu''\<rparr>,
     \<lparr>id_region = ''NYC1'', label_region = ''New York, USA'',
      defaultCarbonIntensity = 390, baseCost = 23 / 100, geoGroup = ''us-east''\<rparr>,
     \<lparr>id_region = ''SFO1'', label_region = ''San Francisco, USA'',
      defaultCarbonIntensity = 380, baseCost = 27 / 100, geoGroup = ''us-west''\<rparr>,
     \<lparr>id_region = ''BLR1'', label_region = ''Bengaluru, India'',
      defaultCarbonIntensity = 650, baseCost = 18 / 100, geoGroup = ''ap-south''\<rparr>,
     \<lparr>id_region = ''SGP1'', label_region = ''Singapore'',
      defaultCarbonIntensity = 510, baseCost = 21 / 100, geoGroup = ''ap-southeast''\<rparr>]"

subsection \<open>normalizeScores\<close>

text \<open>
  \<^verbatim>\<open>Math.min(...v)\<close> and \<^verbatim>\<open>Math.max(...v)\<close> are only evaluated after the
  early return on an empty array, so they are given the first element and the rest.
\<close>

definition Math_min :: "rat \<Rightarrow> rat list \<Rightarrow> rat" where
  "Math_min x xs = fold min xs x"

definition Math_max :: "rat \<Rightarrow> rat list \<Rightarrow> rat" where
  "Math_max x xs = fold max xs x"

definition normalizeScores :: "rat list \<Rightarrow> bool \<Rightarrow> rat list" where
  "normalizeScores values invert =
     (if length values = 0 then []
      else
        (case (if invert then map (\<lambda>x. - x) values else values) of
           [] \<Rightarrow> []
         | x # xs \<Rightarrow>
             (let v = x # xs;
                  mn = Math_min x xs;
                  mx = Math_max x xs
              in if mx = mn then map (\<lambda>_. 7 / 10) v
                 else map (\<lambda>y. (y - mn) / (mx - mn)) v)))"

subsection \<open>getWeights\<close>

record weights =
  w_co2 :: rat
  w_latency :: rat
  w_cost :: rat

text \<open>The \<^verbatim>\<open>switch\<close> on the strategy: the base weights before the tolerance adjustment.\<close>

definition base_weights :: "string \<Rightarrow> rat \<times> rat \<times> rat" where
  "base_weights strategy =
     (if strategy = ''max-green'' then (6 / 10, 25 / 100, 15 / 100)
      else if strategy = ''budget'' then (15 / 100, 25 / 100, 6 / 10)
      else (34 / 100, 33 / 100, 33 / 100))"

definition getWeights :: "string \<Rightarrow> string \<Rightarrow> weights" where
  "getWeights strategy latencyTolerance =
     (case base_weights strategy of (wCo2, wLat, wCost) \<Rightarrow>
        (case (if latencyTolerance = ''strict''
               then (wCo2 * (9 / 10), wLat * (12 / 10), wCost * (9 / 10))
               else if latencyTolerance = ''relaxed''
               then (wCo2 * (11 / 10), wLat * (7 / 10), wCost * (11 / 10))
               else (wCo2, wLat, wCost)) of
           (wCo2', wLat', wCost') \<Rightarrow>
             (let sum = wCo2' + wLat' + wCost'
              in \<lparr>w_co2 = wCo2' / sum, w_latency = wLat' / sum, w_cost = wCost' / sum\<rparr>)))"

subsection \<open>Workload components and calcReplicas\<close>

record component =
  name :: string
  type :: string

definition runtimeTypes :: "string list" where
  "runtimeTypes = [''api-gateway'', ''frontend'', ''container'', ''function'']"

definition countRuntimeComponents :: "component list \<Rightarrow> nat" where
  "countRuntimeComponents components =
     length (filter (\<lambda>c. type c \<in> set runtimeTypes) components)"

definition calcReplicas :: "component list \<Rightarrow> string \<Rightarrow> nat" where
  "calcReplicas components latencyTolerance =
     (let runtimeCount = countRuntimeComponents components;
          replicas = max 1 (nat \<lceil>(of_nat runtimeCount :: rat) / 2\<rceil>);
          replicas' = (if latencyTolerance = ''strict'' \<and> runtimeCount > 1
                       then replicas + 1 else replicas)
      in if replicas' > 4 then 4 else replicas')"

subsection \<open>latencyBaseScore\<close>

definition startsWith :: "string \<Rightarrow> string \<Rightarrow> bool" where
  "startsWith s p = (take (length p) s = p)"

text \<open>
  \<^verbatim>\<open>map[userRegion] || "global"\<close>: a key that is not one of the five own keys of the
  object literal gives \<^verbatim>\<open>"global"\<close>. (A key inherited from \<^verbatim>\<open>Object.prototype\<close>
  gives a non-string target, which matches none of the branches and ends at the same
  final \<^verbatim>\<open>return 0.6\<close> as \<^verbatim>\<open>"global"\<close> does.)
\<close>

definition latency_target :: "string \<Rightarrow> string" where
  "latency_target userRegion =
     (if userRegion = ''ap-south'' then ''ap-south''
      else if userRegion = ''eu-west'' then ''eu''
      else if userRegion = ''us-east'' then ''us-east''
      else if userRegion = ''us-west'' then ''us-west''
      else ''global'')"

definition latencyBaseScore :: "string \<Rightarrow> 'a region_scheme \<Rightarrow> rat" where
  "latencyBaseScore userRegion region =
     (let target = latency_target userRegion; g = geoGroup region
      in if target = ''global'' then 6 / 10
         else if target = ''ap-south'' \<and> g = ''ap-south'' then 1
         else if target = ''ap-south'' \<and> g = ''ap-southeast'' then 85 / 100
         else if target = ''ap-south'' \<and> g = ''eu'' then 6 / 10
         else if target = ''ap-south'' \<and> startsWith g ''us'' then 45 / 100
         else if target = ''eu'' \<and> g = ''eu'' then 1
         else if target = ''eu'' \<and> g = ''us-east'' then 8 / 10
         else if target = ''eu'' \<and> g = ''us-west'' then 7 / 10
         else if target = ''eu'' \<and> startsWith g ''ap'' then 55 / 100
         else if target = ''us-east'' \<and> g = ''us-east'' then 1
         else if target = ''us-east'' \<and> g = ''eu'' then 8 / 10
         else if target = ''us-east'' \<and> g = ''us-west'' then 75 / 100
         else if target = ''us-east'' \<and> startsWith g ''ap'' then 5 / 10
         else if target = ''us-west'' \<and> g = ''us-west'' then 1
         else if target = ''us-west'' \<and> g = ''us-east'' then 8 / 10
         else if target = ''us-west'' \<and> g = ''ap-southeast'' then 7 / 10
         else if target = ''us-west'' \<and> g = ''eu'' then 6 / 10
         else if target = ''us-west'' \<and> g = ''ap-south'' then 5 / 10
         else 6 / 10)"

subsection \<open>generateKubernetesYaml\<close>

text \<open>
  \<^verbatim>\<open>name.toLowerCase().replace(/[^a-z0-9-]/g, "-")\<close>. Lower-casing is modelled on
  the ASCII letters; every other character is outside \<^verbatim>\<open>[a-z0-9-]\<close> before and
  after lower-casing and is replaced by \<^verbatim>\<open>-\<close>, so the composition is the source's on
  names of one-byte characters.
\<close>

definition toLowerCase :: "string \<Rightarrow> string" where
  "toLowerCase s =
     map (\<lambda>c. case map_of (zip ''ABCDEFGHIJKLMNOPQRSTUVWXYZ'' ''abcdefghijklmnopqrstuvwxyz'') c of
                 None \<Rightarrow> c | Some l \<Rightarrow> l) s"

definition replace_unsafe :: "string \<Rightarrow> string" where
  "replace_unsafe s =
     map (\<lambda>c. if c \<in> set ''abcdefghijklmnopqrstuvwxyz0123456789-'' then c else CHR ''-'') s"

definition derived_name :: "string \<Rightarrow> string" where
  "derived_name n = replace_unsafe (toLowerCase n)"

text \<open>\<^verbatim>\<open>... || "service"\<close>: the empty string is falsy.\<close>

definition safeName :: "component \<Rightarrow> string" where
  "safeName c = (if derived_name (name c) = [] then ''service'' else derived_name (name c))"

fun string_of_nat :: "nat \<Rightarrow> string" where
  "string_of_nat n =
     (if n < 10 then [''0123456789'' ! n]
      else string_of_nat (n div 10) @ [''0123456789'' ! (n mod 10)])"

declare string_of_nat.simps [simp del]

definition namespace_lines :: "string \<Rightarrow> string list" where
  "namespace_lines planId =
     [''apiVersion: v1'',
      ''kind: Namespace'',
      ''metadata:'',
      ''  name: greenops-app'',
      ''  labels:'',
      ''    greenops-plan: '' @ planId,
      []]"

definition deployment_lines :: "string \<Rightarrow> string \<Rightarrow> string \<Rightarrow> nat \<Rightarrow> component \<Rightarrow> string list" where
  "deployment_lines planId regionId instanceClass replicas c =
     (let sn = safeName c
      in [''---'',
          ''apiVersion: apps/v1'',
          ''kind: Deployment'',
          ''metadata:'',
          ''  name: '' @ sn,
          ''  namespace: greenops-app'',
          ''  labels:'',
          ''    app: '' @ sn,
          ''    greenops-plan: '' @ planId,
          ''spec:'',
          ''  replicas: '' @ string_of_nat replicas,
          ''  selector:'',
          ''    matchLabels:'',
          ''      app: '' @ sn,
          ''  template:'',
          ''    metadata:'',
          ''      labels:'',
          ''        app: '' @ sn,
          ''        greenops-plan: '' @ planId,
          ''    spec:'',
          ''      containers:'',
          ''        - name: '' @ sn,
          ''          image: your-docker-username/'' @ sn @ '':latest'',
          ''          ports:'',
          ''            - containerPort: 4000'',
          ''          env:'',
          ''            - name: GREENOPS_PLAN_ID'',
          ''              value: '' @ [CHR 0x22] @ planId @ [CHR 0x22],
          ''            - name: GREENOPS_REGION'',
          ''              value: '' @ [CHR 0x22] @ regionId @ [CHR 0x22],
          ''            - name: GREENOPS_INSTANCE_CLASS'',
          ''              value: '' @ [CHR 0x22] @ instanceClass @ [CHR 0x22],
          []])"

text \<open>
  \<^verbatim>\<open>gatewayName\<close>: \<^verbatim>\<open>null\<close> is \<open>None\<close>. The name of the api-gateway component
  (\<^verbatim>\<open>find\<close>: the first one), otherwise of the first runtime component, derived
  without the \<^verbatim>\<open>|| "service"\<close> of the workload unit.
\<close>

definition gatewayName :: "component list \<Rightarrow> string option" where
  "gatewayName runtimeComponents =
     (case find (\<lambda>c. type c = ''api-gateway'') runtimeComponents of
        Some apiGateway \<Rightarrow> Some (derived_name (name apiGateway))
      | None \<Rightarrow>
          (case runtimeComponents of
             [] \<Rightarrow> None
           | c # _ \<Rightarrow> Some (derived_name (name c))))"

definition service_lines :: "string \<Rightarrow> string list" where
  "service_lines gw =
     [''---'',
      ''apiVersion: v1'',
      ''kind: Service'',
      ''metadata:'',
      ''  name: '' @ gw @ ''-svc'',
      ''  namespace: greenops-app'',
      ''spec:'',
      ''  type: LoadBalancer'',
      ''  selector:'',
      ''    app: '' @ gw,
      ''  ports:'',
      ''    - name: http'',
      ''      port: 80'',
      ''      targetPort: 4000'',
      []]"

text \<open>
  The array \<^verbatim>\<open>lines\<close> at the final \<^verbatim>\<open>return\<close>. The test \<^verbatim>\<open>if (gatewayName)\<close>
  is false for \<^verbatim>\<open>null\<close> and for the empty string.
\<close>

definition manifest_lines :: "string \<Rightarrow> string \<Rightarrow> string \<Rightarrow> nat \<Rightarrow> component list \<Rightarrow> string list" where
  "manifest_lines planId regionId instanceClass replicas components =
     (let runtimeComponents = filter (\<lambda>c. type c \<in> set runtimeTypes) components
      in if length runtimeComponents = 0 then namespace_lines planId
         else namespace_lines planId
              @ concat (map (deployment_lines planId regionId instanceClass replicas) runtimeComponents)
              @ (case gatewayName runtimeComponents of
                   None \<Rightarrow> []
                 | Some gw \<Rightarrow> if gw = [] then [] else service_lines gw))"

fun join :: "string \<Rightarrow> string list \<Rightarrow> string" where
  "join sep [] = []"
| "join sep [l] = l"
| "join sep (l # ls) = l @ sep @ join sep ls"

definition generateKubernetesYaml :: "string \<Rightarrow> string \<Rightarrow> string \<Rightarrow> nat \<Rightarrow> component list \<Rightarrow> string" where
  "generateKubernetesYaml planId regionId instanceClass replicas components =
     join [CHR 0x0A] (manifest_lines planId regionId instanceClass replicas components)"

subsection \<open>getCarbonIntensityForRegion\<close>

text \<open>
  \<^verbatim>\<open>REGION_ZONE_MAP[region.id]\<close> is a property read on an object literal. It yields
  the own entry for the six region ids, an inherited member of \<^verbatim>\<open>Object.prototype\<close>
  (truthy, with no \<^verbatim>\<open>zone\<close>) for the twelve inherited keys, and \<^verbatim>\<open>undefined\<close>
  (\<open>None\<close>) for every other id.
\<close>

definition Object_prototype_keys :: "string list" where
  "Object_prototype_keys =
     [''constructor'', ''__defineGetter__'', ''__defineSetter__'', ''hasOwnProperty'',
      ''__lookupGetter__'', ''__lookupSetter__'', ''isPrototypeOf'', ''propertyIsEnumerable'',
      ''toString'', ''valueOf'', ''__proto__'', ''toLocaleString'']"

definition REGION_ZONE_MAP :: "string \<Rightarrow> string option option" where
  "REGION_ZONE_MAP k =
     (if k = ''LON1'' then Some (Some ''GB'')
      else if k = ''FRA1'' then Some (Some ''DE'')
      else if k = ''NYC1'' then Some (Some ''US-NY-NYIS'')
      else if k = ''SFO1'' then Some (Some ''US-CAL-CISO'')
      else if k = ''BLR1'' then Some (Some ''IN'')
      else if k = ''SGP1'' then Some (Some ''SG'')
      else if k \<in> set Object_prototype_keys then Some None
      else None)"

text \<open>
  The provider's answer to one request. \<open>NetworkError\<close>: \<^verbatim>\<open>fetch\<close> rejects.
  \<open>Response ok body\<close>: a response with \<^verbatim>\<open>resp.ok = ok\<close>; \<open>body = None\<close> when reading
  the body throws (not JSON, or JSON \<^verbatim>\<open>null\<close>), otherwise the body's
  \<^verbatim>\<open>carbonIntensity\<close>: a number, or anything whose \<^verbatim>\<open>typeof\<close> is not
  \<^verbatim>\<open>"number"\<close> (an absent field included).
\<close>

datatype json_value = JNumber rat | JOther

datatype http_outcome = NetworkError | Response bool "json_value option"

record env =
  ELECTRICITYMAPS_API_KEY :: string
  fetch :: "string \<Rightarrow> http_outcome"

record carbon_reading =
  value_reading :: rat
  source_reading :: string

definition ELECTRICITYMAPS_API_BASE_URL :: string where
  "ELECTRICITYMAPS_API_BASE_URL = ''https://api.electricitymaps.com/v3''"

text \<open>\<^verbatim>\<open>encodeURIComponent\<close> leaves letters and \<^verbatim>\<open>-\<close> as they are, so every zone
  code of the table, and \<^verbatim>\<open>undefined\<close>, is written into the URL unchanged.\<close>

definition carbon_url :: "string option \<Rightarrow> string" where
  "carbon_url zone =
     ELECTRICITYMAPS_API_BASE_URL @ ''/carbon-intensity/latest?zone=''
       @ (case zone of None \<Rightarrow> ''undefined'' | Some z \<Rightarrow> z)"

definition fallback_static :: "'a region_scheme \<Rightarrow> carbon_reading" where
  "fallback_static region =
     \<lparr>value_reading = defaultCarbonIntensity region, source_reading = ''fallback-static''\<rparr>"

definition getCarbonIntensityForRegion :: "env \<Rightarrow> 'a region_scheme \<Rightarrow> carbon_reading" where
  "getCarbonIntensityForRegion e region =
     (let mapping = REGION_ZONE_MAP (id_region region)
      in if ELECTRICITYMAPS_API_KEY e = [] \<or> mapping = None then fallback_static region
         else
           (case mapping of
              None \<Rightarrow> fallback_static region
            | Some zone \<Rightarrow>
                (case fetch e (carbon_url zone) of
                   NetworkError \<Rightarrow> fallback_static region
                 | Response ok body \<Rightarrow>
                     if \<not> ok then fallback_static region
                     else
                       (case body of
                          None \<Rightarrow> fallback_static region
                        | Some JOther \<Rightarrow> fallback_static region
                        | Some (JNumber ci) \<Rightarrow>
                            \<lparr>value_reading = ci, source_reading = ''electricitymaps''\<rparr>))))"

subsection \<open>The planner endpoint: POST /api/plan\<close>

text \<open>
  The request body. A field that is \<^verbatim>\<open>undefined\<close> takes its default in the
  destructuring; \<^verbatim>\<open>components\<close> can also be a value that is not an array.
  Components are objects with a string \<^verbatim>\<open>name\<close> and a string \<^verbatim>\<open>type\<close>.
\<close>

datatype components_value = Undefined | NonArray | Array "component list"

record plan_request =
  body_components :: components_value
  body_userRegion :: "string option"
  body_latencyTolerance :: "string option"
  body_optimizationPreference :: "string option"

definition isArray :: "components_value \<Rightarrow> bool" where
  "isArray v = (case v of Array _ \<Rightarrow> True | _ \<Rightarrow> False)"

definition items :: "components_value \<Rightarrow> component list" where
  "items v = (case v of Array cs \<Rightarrow> cs | _ \<Rightarrow> [])"

record region_live = region +
  liveCarbonIntensity :: rat
  carbonSource :: string

record region_score =
  rs_region :: region_live
  rs_co2 :: rat
  rs_cost :: rat
  rs_latency :: rat

record scored_region = region_score +
  overall :: rat

record strategy =
  id_strategy :: string
  label_strategy :: string

definition strategies :: "strategy list" where
  "strategies =
     [\<lparr>id_strategy = ''balanced'', label_strategy = ''Balanced''\<rparr>,
      \<lparr>id_strategy = ''max-green'', label_strategy = ''Max Green''\<rparr>,
      \<lparr>id_strategy = ''budget'', label_strategy = ''Budget Friendly''\<rparr>]"

text \<open>
  \<^verbatim>\<open>Array.prototype.sort\<close> with a comparator is a stable sort (ECMAScript 2019):
  \<^verbatim>\<open>a\<close> comes before \<^verbatim>\<open>b\<close> when \<^verbatim>\<open>compareFn(a, b) < 0\<close>, and elements that
  compare equal keep their order. Insertion from the right computes that arrangement.
\<close>

fun insert_sorted :: "('a \<Rightarrow> 'a \<Rightarrow> rat) \<Rightarrow> 'a \<Rightarrow> 'a list \<Rightarrow> 'a list" where
  "insert_sorted compareFn a [] = [a]"
| "insert_sorted compareFn a (b # bs) =
     (if compareFn a b \<le> 0 then a # b # bs else b # insert_sorted compareFn a bs)"

definition Array_sort :: "('a \<Rightarrow> 'a \<Rightarrow> rat) \<Rightarrow> 'a list \<Rightarrow> 'a list" where
  "Array_sort compareFn xs = foldr (insert_sorted compareFn) xs []"

text \<open>\<^verbatim>\<open>Math.round(x * 100) / 100\<close>; \<^verbatim>\<open>Math.round\<close> rounds halves up.\<close>

definition rounded :: "rat \<Rightarrow> rat" where
  "rounded x = of_int \<lfloor>x * 100 + 1 / 2\<rfloor> / 100"

definition instanceClass_of :: "string \<Rightarrow> string" where
  "instanceClass_of strategy_id =
     (if strategy_id = ''max-green'' then ''eco-small''
      else if strategy_id = ''budget'' then ''standard-small''
      else ''standard-medium'')"

definition description_of :: "string \<Rightarrow> string" where
  "description_of strategy_id =
     (if strategy_id = ''max-green''
      then ''Prioritizes regions with lower carbon intensity while still keeping latency and cost within acceptable bounds.''
      else if strategy_id = ''budget''
      then ''Prioritizes lower-cost regions and instance types, while keeping latency and carbon footprint reasonable.''
      else ''Balanced trade-off between carbon efficiency, latency, and cost for general workloads.'')"

record plan_scores =
  co2 :: rat
  latency :: rat
  cost :: rat
  overall_score :: rat

record plan_carbonIntensity =
  value_gCo2PerKwh :: rat
  source :: string

record plan_civo =
  region_civo :: string
  regionLabel :: string
  clusterType :: string
  instanceClass :: string
  replicas :: nat

text \<open>
  The notes are template strings. The model keeps, for each note, the values the
  template interpolates, in the order of the source.
\<close>

datatype plan_note =
  Note_strategy string
| Note_selected string string
| Note_intensity rat string
| Note_replicas nat nat string
| Note_weights rat rat rat

record plan =
  id_plan :: string
  label_plan :: string
  description :: string
  scores :: plan_scores
  carbonIntensity :: plan_carbonIntensity
  civo :: plan_civo
  notes_plan :: "plan_note list"
  kubernetesYaml :: string

datatype error = BadRequest nat string | TypeError

text \<open>
  One iteration of \<^verbatim>\<open>strategies.forEach\<close>. \<^verbatim>\<open>scoredRegions[0]\<close> of an empty array
  is \<^verbatim>\<open>undefined\<close>, and reading \<^verbatim>\<open>best.co2\<close> then throws a TypeError.
\<close>

definition with_overall :: "weights \<Rightarrow> region_score \<Rightarrow> scored_region" where
  "with_overall w rs =
     \<lparr>rs_region = rs_region rs, rs_co2 = rs_co2 rs, rs_cost = rs_cost rs,
      rs_latency = rs_latency rs,
      overall = rs_co2 rs * w_co2 w + rs_latency rs * w_latency w + rs_cost rs * w_cost w\<rparr>"

definition make_plan ::
  "region_score list \<Rightarrow> nat \<Rightarrow> component list \<Rightarrow> string \<Rightarrow> strategy \<Rightarrow> error + plan" where
  "make_plan regionScores recommendedReplicas cs tolerance strat =
     (let w = getWeights (id_strategy strat) tolerance;
          scoredRegions = Array_sort (\<lambda>a b. overall b - overall a) (map (with_overall w) regionScores)
      in case scoredRegions of
           [] \<Rightarrow> Inl TypeError
         | best # _ \<Rightarrow>
             (let ic = instanceClass_of (id_strategy strat)
              in Inr
                \<lparr>id_plan = id_strategy strat,
                 label_plan = label_strategy strat @ '' Plan'',
                 description = description_of (id_strategy strat),
                 scores =
                   \<lparr>co2 = rounded (rs_co2 best), latency = rounded (rs_latency best),
                    cost = rounded (rs_cost best), overall_score = rounded (overall best)\<rparr>,
                 carbonIntensity =
                   \<lparr>value_gCo2PerKwh = rounded (liveCarbonIntensity (rs_region best)),
                    source = carbonSource (rs_region best)\<rparr>,
                 civo =
                   \<lparr>region_civo = id_region (rs_region best),
                    regionLabel = label_region (rs_region best),
                    clusterType = ''kubernetes'',
                    instanceClass = ic,
                    replicas = recommendedReplicas\<rparr>,
                 notes_plan =
                   [Note_strategy (label_strategy strat),
                    Note_selected (id_region (rs_region best)) (label_region (rs_region best)),
                    Note_intensity (rounded (liveCarbonIntensity (rs_region best)))
                      (carbonSource (rs_region best)),
                    Note_replicas recommendedReplicas (countRuntimeComponents cs) tolerance,
                    Note_weights (rounded (w_co2 w)) (rounded (w_latency w)) (rounded (w_cost w))],
                 kubernetesYaml =
                   generateKubernetesYaml (id_strategy strat) (id_region (rs_region best)) ic
                     recommendedReplicas cs\<rparr>))"

text \<open>\<^verbatim>\<open>forEach\<close> with \<^verbatim>\<open>plans.push\<close>: the first exception ends the loop.\<close>

fun forEach_push :: "('a \<Rightarrow> error + 'b) \<Rightarrow> 'a list \<Rightarrow> error + 'b list" where
  "forEach_push f [] = Inr []"
| "forEach_push f (x # xs) =
     (case f x of
        Inl e \<Rightarrow> Inl e
      | Inr y \<Rightarrow> (case forEach_push f xs of Inl e \<Rightarrow> Inl e | Inr ys \<Rightarrow> Inr (y # ys)))"

definition regionScores_of :: "carbon_reading list \<Rightarrow> string \<Rightarrow> region_score list" where
  "regionScores_of carbonResults user_region =
     (let carbonValues = map value_reading carbonResults;
          costValues = map baseCost REGIONS;
          co2Scores = normalizeScores carbonValues True;
          costScores = normalizeScores costValues True;
          latencyScores = map (latencyBaseScore user_region) REGIONS
      in map (\<lambda>(r, idx).
                \<lparr>rs_region =
                   \<lparr>id_region = id_region r, label_region = label_region r,
                    defaultCarbonIntensity = defaultCarbonIntensity r,
                    baseCost = baseCost r, geoGroup = geoGroup r,
                    liveCarbonIntensity = carbonValues ! idx,
                    carbonSource = source_reading (carbonResults ! idx)\<rparr>,
                 rs_co2 = co2Scores ! idx,
                 rs_cost = costScores ! idx,
                 rs_latency = latencyScores ! idx\<rparr>)
             (zip REGIONS [0 ..< length REGIONS]))"

record input_echo =
  echo_components :: "component list"
  echo_userRegion :: string
  echo_latencyTolerance :: string
  echo_optimizationPreference :: string

record response =
  inputEcho :: input_echo
  electricityMaps_enabled :: bool
  plans :: "plan list"

text \<open>
  What one request does: \<open>carbon_calls\<close> lists the regions for which the carbon
  intensity was requested, \<open>reply\<close> is the HTTP answer (a 400 error or the JSON body).
\<close>

record outcome =
  carbon_calls :: "string list"
  reply :: "error + response"

text \<open>
  \<^verbatim>\<open>req.body || {}\<close> and the defaults of the destructuring.
\<close>

definition request_of :: "plan_request option \<Rightarrow> plan_request" where
  "request_of body =
     (case body of
        None \<Rightarrow> \<lparr>body_components = Undefined, body_userRegion = None,
                  body_latencyTolerance = None, body_optimizationPreference = None\<rparr>
      | Some r \<Rightarrow> r)"

definition components_of :: "plan_request option \<Rightarrow> components_value" where
  "components_of body =
     (case body_components (request_of body) of Undefined \<Rightarrow> Array [] | v \<Rightarrow> v)"

definition userRegion_of :: "plan_request option \<Rightarrow> string" where
  "userRegion_of body =
     (case body_userRegion (request_of body) of None \<Rightarrow> ''global'' | Some s \<Rightarrow> s)"

definition latencyTolerance_of :: "plan_request option \<Rightarrow> string" where
  "latencyTolerance_of body =
     (case body_latencyTolerance (request_of body) of None \<Rightarrow> ''balanced'' | Some s \<Rightarrow> s)"

definition optimizationPreference_of :: "plan_request option \<Rightarrow> string" where
  "optimizationPreference_of body =
     (case body_optimizationPreference (request_of body) of None \<Rightarrow> ''balanced'' | Some s \<Rightarrow> s)"

definition plan_handler :: "env \<Rightarrow> plan_request option \<Rightarrow> outcome" where
  "plan_handler e body =
     (let cv = components_of body;
          user_region = userRegion_of body;
          tolerance = latencyTolerance_of body;
          preference = optimizationPreference_of body
      in if \<not> isArray cv \<or> length (items cv) = 0
         then \<lparr>carbon_calls = [],
               reply = Inl (BadRequest 400 ''At least one component is required to generate a plan.'')\<rparr>
         else
           (let carbonResults = map (getCarbonIntensityForRegion e) REGIONS;
                regionScores = regionScores_of carbonResults user_region;
                recommendedReplicas = calcReplicas (items cv) tolerance
            in \<lparr>carbon_calls = map id_region REGIONS,
                reply =
                  (case forEach_push (make_plan regionScores recommendedReplicas (items cv) tolerance)
                          strategies of
                     Inl err \<Rightarrow> Inl err
                   | Inr ps \<Rightarrow>
                       Inr \<lparr>inputEcho =
                              \<lparr>echo_components = items cv, echo_userRegion = user_region,
                               echo_latencyTolerance = tolerance,
                               echo_optimizationPreference = preference\<rparr>,
                            electricityMaps_enabled = (ELECTRICITYMAPS_API_KEY e \<noteq> []),
                            plans = ps\<rparr>)\<rparr>))"

text \<open>The plans of an answer; a rejected request has none.\<close>

definition plans_of :: "outcome \<Rightarrow> plan list" where
  "plans_of out = (case reply out of Inl _ \<Rightarrow> [] | Inr resp \<Rightarrow> plans resp)"

subsection \<open>Environments and the contracts of the specification\<close>

text \<open>
  Two environments for concrete evaluation: a provider that answers every request with
  a given intensity, reached with a token, and no token with an unreachable provider.
\<close>

definition provider_answers :: "rat \<Rightarrow> string \<Rightarrow> http_outcome" where
  "provider_answers ci url = Response True (Some (JNumber ci))"

definition provider_down :: "string \<Rightarrow> http_outcome" where
  "provider_down url = NetworkError"

definition live_env :: env where
  "live_env = \<lparr>ELECTRICITYMAPS_API_KEY = ''token'', fetch = provider_answers 123\<rparr>"

definition offline_env :: env where
  "offline_env = \<lparr>ELECTRICITYMAPS_API_KEY = [], fetch = provider_down\<rparr>"


text \<open>
  WeightPolicy in the specification's words: the base weights of the three strategies,
  the factors of the three tolerances, and the renormalization of the products.
\<close>

definition spec_base_weights :: "string \<Rightarrow> (rat \<times> rat \<times> rat) option" where
  "spec_base_weights s =
     (if s = ''max-green'' then Some (60 / 100, 25 / 100, 15 / 100)
      else if s = ''budget'' then Some (15 / 100, 25 / 100, 60 / 100)
      else if s = ''balanced'' then Some (34 / 100, 33 / 100, 33 / 100)
      else None)"

definition spec_tolerance_factors :: "string \<Rightarrow> (rat \<times> rat \<times> rat) option" where
  "spec_tolerance_factors t =
     (if t = ''strict'' then Some (9 / 10, 12 / 10, 9 / 10)
      else if t = ''relaxed'' then Some (11 / 10, 7 / 10, 11 / 10)
      else if t = ''balanced'' then Some (1, 1, 1)
      else None)"

definition spec_WeightPolicy :: "string \<Rightarrow> string \<Rightarrow> weights option" where
  "spec_WeightPolicy s t =
     (case (spec_base_weights s, spec_tolerance_factors t) of
        (Some (c, l, k), Some (fc, fl, fk)) \<Rightarrow>
          Some \<lparr>w_co2 = c * fc / (c * fc + l * fl + k * fk),
                w_latency = l * fl / (c * fc + l * fl + k * fk),
                w_cost = k * fk / (c * fc + l * fl + k * fk)\<rparr>
      | _ \<Rightarrow> None)"

text \<open>The number of components whose type is in the runtime set, counted by position.\<close>

definition runtimeCount_spec :: "component list \<Rightarrow> nat" where
  "runtimeCount_spec cs =
     card {i. i < length cs \<and>
              type (cs ! i) \<in> {''api-gateway'', ''frontend'', ''container'', ''function''}}"

text \<open>
  The overall score of the catalog region at position \<open>k\<close> under the weights \<open>w\<close>:
  \<open>co2 * w_co2 + latency * w_latency + cost * w_cost\<close>, with the co2 and cost scores
  normalized over the whole catalog.
\<close>

definition overall_of :: "env \<Rightarrow> string \<Rightarrow> weights \<Rightarrow> nat \<Rightarrow> rat" where
  "overall_of e user_region w k =
     normalizeScores (map (\<lambda>r. value_reading (getCarbonIntensityForRegion e r)) REGIONS) True ! k
       * w_co2 w
     + latencyBaseScore user_region (REGIONS ! k) * w_latency w
     + normalizeScores (map baseCost REGIONS) True ! k * w_cost w"

text \<open>The request of the specification's first scenario.\<close>

definition scenario_request :: plan_request where
  "scenario_request =
     \<lparr>body_components = Array [\<lparr>name = ''api'', type = ''api-gateway''\<rparr>],
      body_userRegion = Some ''eu-west'', body_latencyTolerance = Some ''balanced'',
      body_optimizationPreference = None\<rparr>"

text \<open>
  The component the exposed service is bound to, in the specification's words: the
  runtime component typed api-gateway if there is one, otherwise the first runtime
  component in input order.
\<close>

definition bound_component :: "component list \<Rightarrow> component option" where
  "bound_component cs =
     (let rt = filter (\<lambda>c. type c \<in> {''api-gateway'', ''frontend'', ''container'', ''function''}) cs
      in case find (\<lambda>c. type c = ''api-gateway'') rt of
           Some g \<Rightarrow> Some g
         | None \<Rightarrow> (case rt of [] \<Rightarrow> None | c # _ \<Rightarrow> Some c))"

section \<open>Verified properties\<close>

subsection \<open>normalizeScores\<close>













subsection \<open>getWeights\<close>

text \<open>
  Claim C6. For every strategy in max-green, budget, balanced and every tolerance in
  strict, balanced, relaxed, \<open>getWeights\<close> returns three non-negative weights that sum
  to exactly 1 in rational arithmetic, and they are the base weights of the strategy
  multiplied by the factors of the tolerance and renormalized, as the specification
  states them.
\<close>

theorem getWeights_contract:
  assumes "s \<in> set [''max-green'', ''budget'', ''balanced'']"
    and "t \<in> set [''strict'', ''balanced'', ''relaxed'']"
  shows "0 \<le> w_co2 (getWeights s t) \<and> 0 \<le> w_latency (getWeights s t) \<and>
         0 \<le> w_cost (getWeights s t) \<and>
         w_co2 (getWeights s t) + w_latency (getWeights s t) + w_cost (getWeights s t) = 1 \<and>
         spec_WeightPolicy s t = Some (getWeights s t)"
  using assms
  by (auto simp: getWeights_def base_weights_def spec_WeightPolicy_def spec_base_weights_def
      spec_tolerance_factors_def Let_def)

theorem getWeights_contract_witness:
  "''max-green'' \<in> set [''max-green'', ''budget'', ''balanced''] \<and>
   ''strict'' \<in> set [''strict'', ''balanced'', ''relaxed''] \<and>
   getWeights ''max-green'' ''strict'' = \<lparr>w_co2 = 36 / 65, w_latency = 4 / 13, w_cost = 9 / 65\<rparr> \<and>
   w_co2 (getWeights ''max-green'' ''strict'') + w_latency (getWeights ''max-green'' ''strict'')
     + w_cost (getWeights ''max-green'' ''strict'') = 1 \<and>
   spec_WeightPolicy ''max-green'' ''strict'' = Some (getWeights ''max-green'' ''strict'')"
proof -
  have s: "''max-green'' \<in> set [''max-green'', ''budget'', ''balanced'']" by simp
  have t: "''strict'' \<in> set [''strict'', ''balanced'', ''relaxed'']" by simp
  have v: "getWeights ''max-green'' ''strict'' = \<lparr>w_co2 = 36 / 65, w_latency = 4 / 13, w_cost = 9 / 65\<rparr>"
    by (simp add: getWeights_def base_weights_def Let_def)
  show ?thesis using getWeights_contract [OF s t] s t v by simp
qed

subsection \<open>calcReplicas\<close>

lemma ceiling_half: "nat \<lceil>(of_nat n :: rat) / 2\<rceil> = (n + 1) div 2"
proof -
  have "(of_nat n :: rat) / 2 = of_int (int n) / of_int 2" by simp
  then have "\<lceil>(of_nat n :: rat) / 2\<rceil> = - (- int n div 2)"
    by (simp only: ceiling_divide_eq_div)
  also have "\<dots> = int ((n + 1) div 2)" by presburger
  finally show ?thesis by simp
qed

lemma clamp4: "(if (4::nat) < a then 4 else a) = min 4 a"
  by auto

lemma if_add_one: "(if c then r + 1 else r) = r + (if c then 1 else (0::nat))"
  by simp

lemma calcReplicas_eq:
  "calcReplicas cs t =
     min 4 (max 1 ((countRuntimeComponents cs + 1) div 2)
            + (if t = ''strict'' \<and> countRuntimeComponents cs > 1 then 1 else 0))"
  unfolding calcReplicas_def Let_def ceiling_half clamp4 if_add_one ..

lemma countRuntimeComponents_card: "countRuntimeComponents cs = runtimeCount_spec cs"
  by (simp add: countRuntimeComponents_def runtimeCount_spec_def runtimeTypes_def
      length_filter_conv_card)

text \<open>
  Claim C7. For every component list and every tolerance, \<open>calcReplicas\<close> returns
  \<open>max 1 (ceiling (runtimeCount / 2))\<close>, plus 1 when the tolerance is strict and
  \<open>runtimeCount > 1\<close>, clamped to at most 4, where \<open>runtimeCount\<close> is the number of
  components whose type is api-gateway, frontend, container or function; the result is
  in \<open>[1, 4]\<close>.
\<close>

theorem calcReplicas_contract:
  "calcReplicas cs t =
     min 4 (max 1 (nat \<lceil>(of_nat (runtimeCount_spec cs) :: rat) / 2\<rceil>)
            + (if t = ''strict'' \<and> runtimeCount_spec cs > 1 then 1 else 0)) \<and>
   1 \<le> calcReplicas cs t \<and> calcReplicas cs t \<le> 4"
  by (simp add: calcReplicas_eq countRuntimeComponents_card ceiling_half)

theorem calcReplicas_contract_witness:
  "calcReplicas (replicate 5 \<lparr>name = ''svc'', type = ''function''\<rparr>) ''strict'' = 4 \<and>
   runtimeCount_spec (replicate 5 \<lparr>name = ''svc'', type = ''function''\<rparr>) = 5"
proof -
  have rc: "runtimeCount_spec (replicate 5 \<lparr>name = ''svc'', type = ''function''\<rparr>) = 5"
    by (simp add: countRuntimeComponents_card [symmetric] countRuntimeComponents_def runtimeTypes_def)
  show ?thesis
    using calcReplicas_contract [of "replicate 5 \<lparr>name = ''svc'', type = ''function''\<rparr>" "''strict''",
        unfolded ceiling_half rc] rc
    by simp
qed

text \<open>
  Claim C8. With the tolerance fixed, a component list with twice as many runtime
  components as another never gets fewer replicas.
\<close>

theorem calcReplicas_doubling:
  assumes "countRuntimeComponents cs2 = 2 * countRuntimeComponents cs1"
  shows "calcReplicas cs1 t \<le> calcReplicas cs2 t"
proof -
  define n where "n = countRuntimeComponents cs1"
  have a: "(2 * n + 1) div 2 = n" by simp
  have b: "max 1 ((n + 1) div 2) \<le> max 1 n" by (cases n) auto
  have c: "(if t = ''strict'' \<and> n > 1 then 1 else 0)
           \<le> (if t = ''strict'' \<and> 2 * n > 1 then 1 else (0::nat))"
    by auto
  have "max 1 ((n + 1) div 2) + (if t = ''strict'' \<and> n > 1 then 1 else 0)
        \<le> max 1 n + (if t = ''strict'' \<and> 2 * n > 1 then 1 else 0)"
    using b c by (rule add_mono)
  then have "min 4 (max 1 ((n + 1) div 2) + (if t = ''strict'' \<and> n > 1 then 1 else 0))
        \<le> min 4 (max 1 ((2 * n + 1) div 2) + (if t = ''strict'' \<and> 2 * n > 1 then 1 else 0))"
    unfolding a by (rule min.mono [OF order_refl])
  then show ?thesis
    unfolding calcReplicas_eq assms n_def .
qed

theorem calcReplicas_doubling_witness:
  "countRuntimeComponents
     [\<lparr>name = ''a'', type = ''api-gateway''\<rparr>, \<lparr>name = ''b'', type = ''frontend''\<rparr>,
      \<lparr>name = ''db'', type = ''database''\<rparr>]
   = 2 * countRuntimeComponents [\<lparr>name = ''a'', type = ''container''\<rparr>] \<and>
   calcReplicas [\<lparr>name = ''a'', type = ''container''\<rparr>] ''strict'' = 1 \<and>
   calcReplicas
     [\<lparr>name = ''a'', type = ''api-gateway''\<rparr>, \<lparr>name = ''b'', type = ''frontend''\<rparr>,
      \<lparr>name = ''db'', type = ''database''\<rparr>] ''strict'' = 2"
proof -
  have h: "countRuntimeComponents
     [\<lparr>name = ''a'', type = ''api-gateway''\<rparr>, \<lparr>name = ''b'', type = ''frontend''\<rparr>,
      \<lparr>name = ''db'', type = ''database''\<rparr>]
   = 2 * countRuntimeComponents [\<lparr>name = ''a'', type = ''container''\<rparr>]"
    by (simp add: countRuntimeComponents_def runtimeTypes_def)
  show ?thesis
    using calcReplicas_doubling [OF h, of "''strict''"] h
    by (simp add: calcReplicas_eq countRuntimeComponents_def runtimeTypes_def)
qed

subsection \<open>Region selection\<close>

lemma insert_sorted_hd:
  "hd (insert_sorted cmp a bs) = (if bs = [] \<or> cmp a (hd bs) \<le> 0 then a else hd bs)"
  by (cases bs) auto

lemma insert_sorted_not_Nil: "insert_sorted cmp a bs \<noteq> []"
  by (cases bs) auto

lemma Array_sort_Cons: "Array_sort cmp (x # xs) = insert_sorted cmp x (Array_sort cmp xs)"
  by (simp add: Array_sort_def)

lemma Array_sort_Nil_iff: "Array_sort cmp xs = [] \<longleftrightarrow> xs = []"
  by (cases xs) (simp_all add: Array_sort_def insert_sorted_not_Nil)

lemma REGIONS_distinct_ids: "distinct (map id_region REGIONS)"
  by (simp add: REGIONS_def)

text \<open>
  The sort keeps the elements, orders them by descending key and keeps the order of
  elements with equal keys.
\<close>

lemma insert_sorted_set: "set (insert_sorted cmp a bs) = insert a (set bs)"
  by (induction bs) auto

lemma Array_sort_set: "set (Array_sort cmp xs) = set xs"
  by (induction xs) (simp_all add: Array_sort_def insert_sorted_set)

lemma insert_sorted_length: "length (insert_sorted cmp a bs) = Suc (length bs)"
  by (induction bs) auto

lemma Array_sort_length: "length (Array_sort cmp xs) = length xs"
  by (induction xs) (simp_all add: Array_sort_def insert_sorted_length)

lemma insert_sorted_descending:
  fixes f :: "'a \<Rightarrow> rat"
  assumes "sorted_wrt (\<lambda>a b. f b \<le> f a) bs"
  shows "sorted_wrt (\<lambda>a b. f b \<le> f a) (insert_sorted (\<lambda>a b. f b - f a) x bs)"
  using assms
proof (induction bs)
  case Nil
  then show ?case by simp
next
  case (Cons b bs)
  show ?case
  proof (cases "f b - f x \<le> 0")
    case True
    then have "\<forall>y\<in>set (b # bs). f y \<le> f x"
      using Cons.prems by (auto intro: order_trans)
    then show ?thesis using True Cons.prems by simp
  next
    case False
    then show ?thesis using Cons by (auto simp: insert_sorted_set)
  qed
qed

lemma Array_sort_descending:
  fixes f :: "'a \<Rightarrow> rat"
  shows "sorted_wrt (\<lambda>a b. f b \<le> f a) (Array_sort (\<lambda>a b. f b - f a) xs)"
  by (induction xs) (simp_all add: Array_sort_def insert_sorted_descending)

lemma insert_sorted_stable:
  fixes f :: "'a \<Rightarrow> rat"
  assumes "sorted_wrt (\<lambda>a b. f b \<le> f a) bs"
  shows "filter (\<lambda>y. f y = v) (insert_sorted (\<lambda>a b. f b - f a) x bs)
         = filter (\<lambda>y. f y = v) (x # bs)"
  using assms
proof (induction bs)
  case Nil
  then show ?case by simp
next
  case (Cons b bs)
  show ?case
  proof (cases "f b - f x \<le> 0")
    case True
    then show ?thesis by simp
  next
    case False
    then have lt: "f x < f b" by simp
    have ih: "filter (\<lambda>y. f y = v) (insert_sorted (\<lambda>a b. f b - f a) x bs)
         = filter (\<lambda>y. f y = v) (x # bs)"
      using Cons by simp
    show ?thesis using False lt ih by auto
  qed
qed

lemma Array_sort_stable:
  fixes f :: "'a \<Rightarrow> rat"
  shows "filter (\<lambda>y. f y = v) (Array_sort (\<lambda>a b. f b - f a) xs) = filter (\<lambda>y. f y = v) xs"
proof (induction xs)
  case Nil
  then show ?case by (simp add: Array_sort_def)
next
  case (Cons x xs)
  have "filter (\<lambda>y. f y = v) (Array_sort (\<lambda>a b. f b - f a) (x # xs))
        = filter (\<lambda>y. f y = v) (x # Array_sort (\<lambda>a b. f b - f a) xs)"
    unfolding Array_sort_Cons by (rule insert_sorted_stable) (rule Array_sort_descending)
  then show ?case using Cons by simp
qed

lemma Array_sort_hd_first_max:
  fixes f :: "'a \<Rightarrow> rat"
  assumes "xs \<noteq> []"
  shows "\<exists>k<length xs. hd (Array_sort (\<lambda>a b. f b - f a) xs) = xs ! k \<and>
           (\<forall>j<length xs. f (xs ! j) \<le> f (xs ! k)) \<and> (\<forall>j<k. f (xs ! j) < f (xs ! k))"
  using assms
proof (induction xs)
  case Nil
  then show ?case by simp
next
  case (Cons x xs)
  let ?cmp = "\<lambda>a b. f b - f a"
  show ?case
  proof (cases "xs = []")
    case True
    then show ?thesis by (simp add: Array_sort_def)
  next
    case False
    with Cons.IH obtain k where k: "k < length xs"
      and hk: "hd (Array_sort ?cmp xs) = xs ! k"
      and mx: "\<forall>j<length xs. f (xs ! j) \<le> f (xs ! k)"
      and fst: "\<forall>j<k. f (xs ! j) < f (xs ! k)"
      by blast
    have ne: "Array_sort ?cmp xs \<noteq> []" using False by (simp add: Array_sort_Nil_iff)
    show ?thesis
    proof (cases "f (xs ! k) \<le> f x")
      case True
      then have "hd (Array_sort ?cmp (x # xs)) = (x # xs) ! 0"
        using ne hk by (simp add: Array_sort_Cons insert_sorted_hd)
      moreover have "\<forall>j<length (x # xs). f ((x # xs) ! j) \<le> f ((x # xs) ! 0)"
      proof (intro allI impI)
        fix j assume "j < length (x # xs)"
        then show "f ((x # xs) ! j) \<le> f ((x # xs) ! 0)"
          using mx True by (cases j) (auto intro: order_trans)
      qed
      ultimately show ?thesis by (intro exI [of _ 0]) simp
    next
      case False
      then have lt: "f x < f (xs ! k)" by simp
      then have "hd (Array_sort ?cmp (x # xs)) = (x # xs) ! Suc k"
        using ne hk by (simp add: Array_sort_Cons insert_sorted_hd)
      moreover have "\<forall>j<length (x # xs). f ((x # xs) ! j) \<le> f ((x # xs) ! Suc k)"
      proof (intro allI impI)
        fix j assume "j < length (x # xs)"
        then show "f ((x # xs) ! j) \<le> f ((x # xs) ! Suc k)"
          using mx lt by (cases j) auto
      qed
      moreover have "\<forall>j<Suc k. f ((x # xs) ! j) < f ((x # xs) ! Suc k)"
      proof (intro allI impI)
        fix j assume "j < Suc k"
        then show "f ((x # xs) ! j) < f ((x # xs) ! Suc k)"
          using fst lt by (cases j) auto
      qed
      ultimately show ?thesis using k by (intro exI [of _ "Suc k"]) simp
    qed
  qed
qed

lemma make_plan_best:
  assumes "regionScores \<noteq> []"
  shows "\<exists>p k. make_plan regionScores n cs tol strat = Inr p \<and> k < length regionScores \<and>
      id_plan p = id_strategy strat \<and>
      region_civo (civo p) = id_region (rs_region (regionScores ! k)) \<and>
      instanceClass (civo p) = instanceClass_of (id_strategy strat) \<and>
      (\<forall>j<length regionScores.
          overall (with_overall (getWeights (id_strategy strat) tol) (regionScores ! j))
          \<le> overall (with_overall (getWeights (id_strategy strat) tol) (regionScores ! k))) \<and>
      (\<forall>j<k.
          overall (with_overall (getWeights (id_strategy strat) tol) (regionScores ! j))
          < overall (with_overall (getWeights (id_strategy strat) tol) (regionScores ! k)))"
proof -
  let ?w = "getWeights (id_strategy strat) tol"
  let ?xs = "map (with_overall ?w) regionScores"
  let ?sorted = "Array_sort (\<lambda>a b. overall b - overall a) ?xs"
  have ne: "?xs \<noteq> []" using assms by simp
  from Array_sort_hd_first_max [OF ne, of overall]
  obtain k where k: "k < length ?xs" and hk: "hd ?sorted = ?xs ! k"
    and mx: "\<forall>j<length ?xs. overall (?xs ! j) \<le> overall (?xs ! k)"
    and fst: "\<forall>j<k. overall (?xs ! j) < overall (?xs ! k)"
    by blast
  have sne: "?sorted \<noteq> []" using ne by (simp add: Array_sort_Nil_iff)
  then obtain best rest where s: "?sorted = best # rest" by (cases ?sorted) auto
  with hk have best: "best = with_overall ?w (regionScores ! k)" using k by simp
  have "\<exists>p. make_plan regionScores n cs tol strat = Inr p \<and> id_plan p = id_strategy strat \<and>
      region_civo (civo p) = id_region (rs_region (regionScores ! k)) \<and>
      instanceClass (civo p) = instanceClass_of (id_strategy strat)"
    unfolding make_plan_def Let_def s by (simp add: best with_overall_def)
  moreover have "\<forall>j<length regionScores. overall (with_overall ?w (regionScores ! j))
          \<le> overall (with_overall ?w (regionScores ! k))"
    using mx k by auto
  moreover have "\<forall>j<k. overall (with_overall ?w (regionScores ! j))
          < overall (with_overall ?w (regionScores ! k))"
    using fst k by auto
  ultimately show ?thesis using k by auto
qed


lemma REGIONS_length: "length REGIONS = 6"
  by (simp add: REGIONS_def)

lemma regionScores_of_length: "length (regionScores_of cr ur) = length REGIONS"
  by (simp add: regionScores_of_def Let_def)



lemma forEach_push_all:
  assumes "\<forall>x\<in>set xs. \<exists>y. f x = Inr y"
  shows "\<exists>ys. forEach_push f xs = Inr ys \<and> list_all2 (\<lambda>x y. f x = Inr y) xs ys"
  using assms
proof (induction xs)
  case Nil
  then show ?case by simp
next
  case (Cons x xs)
  then obtain y ys where "f x = Inr y" "forEach_push f xs = Inr ys"
    "list_all2 (\<lambda>x y. f x = Inr y) xs ys"
    by auto
  then show ?case by simp
qed

lemma plan_handler_rejects:
  assumes "\<not> isArray (components_of body) \<or> items (components_of body) = []"
  shows "plan_handler e body =
     \<lparr>carbon_calls = [],
      reply = Inl (BadRequest 400 ''At least one component is required to generate a plan.'')\<rparr>"
  using assms by (auto simp: plan_handler_def Let_def)

lemma plan_handler_accepts:
  assumes "isArray (components_of body)" and "items (components_of body) \<noteq> []"
  shows "\<exists>ps. plan_handler e body =
       \<lparr>carbon_calls = map id_region REGIONS,
        reply = Inr \<lparr>inputEcho =
                       \<lparr>echo_components = items (components_of body),
                        echo_userRegion = userRegion_of body,
                        echo_latencyTolerance = latencyTolerance_of body,
                        echo_optimizationPreference = optimizationPreference_of body\<rparr>,
                     electricityMaps_enabled = (ELECTRICITYMAPS_API_KEY e \<noteq> []),
                     plans = ps\<rparr>\<rparr> \<and>
     list_all2 (\<lambda>strat p.
        make_plan (regionScores_of (map (getCarbonIntensityForRegion e) REGIONS) (userRegion_of body))
          (calcReplicas (items (components_of body)) (latencyTolerance_of body))
          (items (components_of body)) (latencyTolerance_of body) strat = Inr p) strategies ps"
proof -
  let ?rs = "regionScores_of (map (getCarbonIntensityForRegion e) REGIONS) (userRegion_of body)"
  let ?f = "make_plan ?rs (calcReplicas (items (components_of body)) (latencyTolerance_of body))
          (items (components_of body)) (latencyTolerance_of body)"
  have "?rs \<noteq> []"
    using regionScores_of_length [of "map (getCarbonIntensityForRegion e) REGIONS" "userRegion_of body"]
    by (auto simp: REGIONS_length)
  then have "\<forall>strat\<in>set strategies. \<exists>p. ?f strat = Inr p"
    using make_plan_best by blast
  then obtain ps where ps: "forEach_push ?f strategies = Inr ps"
    "list_all2 (\<lambda>x y. ?f x = Inr y) strategies ps"
    using forEach_push_all by blast
  show ?thesis
    using assms ps by (intro exI [of _ ps]) (simp add: plan_handler_def Let_def)
qed

lemma plans_of_accepts:
  assumes "isArray (components_of body)" and "items (components_of body) \<noteq> []"
  shows "list_all2 (\<lambda>strat p.
        make_plan (regionScores_of (map (getCarbonIntensityForRegion e) REGIONS) (userRegion_of body))
          (calcReplicas (items (components_of body)) (latencyTolerance_of body))
          (items (components_of body)) (latencyTolerance_of body) strat = Inr p)
       strategies (plans_of (plan_handler e body))"
  using plan_handler_accepts [OF assms, of e] by (auto simp: plans_of_def)

lemma plans_of_rejects:
  assumes "\<not> isArray (components_of body) \<or> items (components_of body) = []"
  shows "plans_of (plan_handler e body) = []"
  by (simp add: plan_handler_rejects [OF assms] plans_of_def)

lemma make_plan_id: "make_plan rs n cs tol strat = Inr p \<Longrightarrow> id_plan p = id_strategy strat"
  by (auto simp: make_plan_def Let_def split: list.splits)

lemma plans_of_ids:
  assumes "isArray (components_of body)" and "items (components_of body) \<noteq> []"
  shows "map id_plan (plans_of (plan_handler e body)) = map id_strategy strategies"
proof -
  have "list_all2 (\<lambda>strat p. id_plan p = id_strategy strat) strategies (plans_of (plan_handler e body))"
    using plans_of_accepts [OF assms, of e]
    by (rule list_all2_mono) (rule make_plan_id)
  then show ?thesis
    by (induction rule: list_all2_induct) simp_all
qed


lemma scenario_valid:
  "isArray (components_of (Some scenario_request))"
  "items (components_of (Some scenario_request)) \<noteq> []"
  "userRegion_of (Some scenario_request) = ''eu-west''"
  "latencyTolerance_of (Some scenario_request) = ''balanced''"
  by (simp_all add: scenario_request_def components_of_def request_of_def isArray_def items_def
      userRegion_of_def latencyTolerance_of_def)

lemma offline_overall:
  "map (overall_of offline_env ''eu-west'' (getWeights ''max-green'' ''balanced'')) [0 ..< 6]
    = [183 / 220, 13 / 15, 41 / 66, 239 / 440, 23 / 80, 377 / 880]"
  by code_simp



subsection \<open>Validation of the request\<close>

text \<open>
  Claim C9. A planning request whose component list is missing (no body, or no
  \<open>components\<close> field), not a list, or empty is answered with the 400 validation error;
  no carbon intensity is requested for any region and the answer carries no plan.
\<close>

theorem invalid_components_rejected:
  assumes "body_components (request_of body) = Undefined \<or>
           body_components (request_of body) = NonArray \<or>
           body_components (request_of body) = Array []"
  shows "plan_handler e body =
           \<lparr>carbon_calls = [],
            reply = Inl (BadRequest 400 ''At least one component is required to generate a plan.'')\<rparr> \<and>
         plans_of (plan_handler e body) = []"
proof -
  have "\<not> isArray (components_of body) \<or> items (components_of body) = []"
    using assms by (auto simp: components_of_def isArray_def items_def)
  then show ?thesis
    using plan_handler_rejects plans_of_rejects by blast
qed

theorem invalid_components_rejected_witness:
  "body_components (request_of (Some (scenario_request\<lparr>body_components := Array []\<rparr>))) = Array [] \<and>
   body_components (request_of None) = Undefined \<and>
   carbon_calls (plan_handler live_env (Some (scenario_request\<lparr>body_components := Array []\<rparr>))) = [] \<and>
   reply (plan_handler live_env (Some (scenario_request\<lparr>body_components := Array []\<rparr>)))
     = Inl (BadRequest 400 ''At least one component is required to generate a plan.'') \<and>
   reply (plan_handler live_env None)
     = Inl (BadRequest 400 ''At least one component is required to generate a plan.'')"
proof -
  have a: "body_components (request_of (Some (scenario_request\<lparr>body_components := Array []\<rparr>))) = Array []"
    by (simp add: request_of_def)
  have b: "body_components (request_of None) = Undefined"
    by (simp add: request_of_def)
  show ?thesis
    using invalid_components_rejected [of "Some (scenario_request\<lparr>body_components := Array []\<rparr>)" live_env]
      invalid_components_rejected [of None live_env] a b
    by simp
qed

subsection \<open>The optimization preference\<close>

lemma preference_irrelevant:
  "components_of (Some (r\<lparr>body_optimizationPreference := p\<rparr>)) = components_of (Some r)"
  "userRegion_of (Some (r\<lparr>body_optimizationPreference := p\<rparr>)) = userRegion_of (Some r)"
  "latencyTolerance_of (Some (r\<lparr>body_optimizationPreference := p\<rparr>)) = latencyTolerance_of (Some r)"
  by (simp_all add: components_of_def userRegion_of_def latencyTolerance_of_def request_of_def)

text \<open>
  Claim C10. Two planning requests that differ only in \<open>optimizationPreference\<close> get,
  under the same carbon readings, the same plans (regions, scores, replicas, instance
  classes, manifests), the same carbon requests and the same answer apart from the
  echoed preference, which is the field's value or its default \<open>balanced\<close>.
\<close>

theorem preference_only_echoed:
  "plans_of (plan_handler e (Some (r\<lparr>body_optimizationPreference := p\<rparr>)))
     = plans_of (plan_handler e (Some r)) \<and>
   carbon_calls (plan_handler e (Some (r\<lparr>body_optimizationPreference := p\<rparr>)))
     = carbon_calls (plan_handler e (Some r)) \<and>
   map_sum id (\<lambda>resp. (echo_components (inputEcho resp), echo_userRegion (inputEcho resp),
                         echo_latencyTolerance (inputEcho resp), electricityMaps_enabled resp,
                         plans resp))
     (reply (plan_handler e (Some (r\<lparr>body_optimizationPreference := p\<rparr>))))
     = map_sum id (\<lambda>resp. (echo_components (inputEcho resp), echo_userRegion (inputEcho resp),
                         echo_latencyTolerance (inputEcho resp), electricityMaps_enabled resp,
                         plans resp))
         (reply (plan_handler e (Some r))) \<and>
   map_sum id (\<lambda>resp. echo_optimizationPreference (inputEcho resp))
     (reply (plan_handler e (Some (r\<lparr>body_optimizationPreference := p\<rparr>))))
     = map_sum id (\<lambda>resp. case p of None \<Rightarrow> ''balanced'' | Some s \<Rightarrow> s)
         (reply (plan_handler e (Some r)))"
  by (simp add: plan_handler_def Let_def preference_irrelevant plans_of_def
      optimizationPreference_of_def request_of_def split: sum.splits)

theorem preference_only_echoed_witness:
  "plans_of (plan_handler offline_env (Some (scenario_request\<lparr>body_optimizationPreference := Some ''max-green''\<rparr>)))
     = plans_of (plan_handler offline_env (Some scenario_request)) \<and>
   map id_plan (plans_of (plan_handler offline_env (Some scenario_request)))
     = [''balanced'', ''max-green'', ''budget'']"
  using preference_only_echoed [where e = offline_env and r = scenario_request and p = "Some ''max-green''"]
    plans_of_ids [OF scenario_valid(1) scenario_valid(2), of offline_env]
  by (simp add: strategies_def)

subsection \<open>Strategies outside the enumeration\<close>

text \<open>
  Claim C2 as stated fails: the strategy \<open>turbo\<close> is outside the enumeration, and
  \<open>getWeights\<close> returns for it the weights of \<open>balanced\<close>, the instance class is
  \<open>standard-medium\<close>, and the plan is built without an error.
\<close>

theorem unknown_strategy_defaults_counterexample:
  "''turbo'' \<notin> set [''max-green'', ''budget'', ''balanced''] \<and>
   getWeights ''turbo'' ''strict'' = getWeights ''balanced'' ''strict'' \<and>
   getWeights ''turbo'' ''strict'' = \<lparr>w_co2 = 34 / 111, w_latency = 44 / 111, w_cost = 11 / 37\<rparr> \<and>
   instanceClass_of ''turbo'' = ''standard-medium'' \<and>
   \<not> isl (make_plan (regionScores_of (map (getCarbonIntensityForRegion offline_env) REGIONS) ''global'')
             1 [\<lparr>name = ''api'', type = ''api-gateway''\<rparr>] ''strict''
             \<lparr>id_strategy = ''turbo'', label_strategy = ''Turbo''\<rparr>)"
proof -
  have "regionScores_of (map (getCarbonIntensityForRegion offline_env) REGIONS) ''global'' \<noteq> []"
    using regionScores_of_length [of "map (getCarbonIntensityForRegion offline_env) REGIONS" "''global''"]
    by (auto simp: REGIONS_length)
  from make_plan_best [OF this]
  have "\<not> isl (make_plan (regionScores_of (map (getCarbonIntensityForRegion offline_env) REGIONS) ''global'')
             1 [\<lparr>name = ''api'', type = ''api-gateway''\<rparr>] ''strict''
             \<lparr>id_strategy = ''turbo'', label_strategy = ''Turbo''\<rparr>)"
    by (metis sum.disc(2))
  then show ?thesis
    by (simp add: getWeights_def base_weights_def instanceClass_of_def Let_def)
qed

text \<open>
  Claim C2, amended. For every strategy value outside max-green, budget, balanced,
  \<open>getWeights\<close> returns the weights of \<open>balanced\<close> for the same tolerance (the
  \<^verbatim>\<open>default\<close> label of the \<^verbatim>\<open>switch\<close> shares the balanced case), the instance class
  is \<open>standard-medium\<close> (the final \<^verbatim>\<open>else\<close>), and over a non-empty list of region
  scores the plan is built: nothing fails.
\<close>

theorem unknown_strategy_defaults:
  assumes "s \<notin> set [''max-green'', ''budget'', ''balanced'']"
  shows "getWeights s t = getWeights ''balanced'' t \<and>
         instanceClass_of s = ''standard-medium'' \<and>
         (regionScores \<noteq> [] \<longrightarrow>
            (\<exists>p. make_plan regionScores n cs t \<lparr>id_strategy = s, label_strategy = l\<rparr> = Inr p \<and>
                 instanceClass (civo p) = ''standard-medium''))"
proof -
  have a: "getWeights s t = getWeights ''balanced'' t"
    using assms by (simp add: getWeights_def base_weights_def)
  have b: "instanceClass_of s = ''standard-medium''"
    using assms by (simp add: instanceClass_of_def)
  have c: "regionScores \<noteq> [] \<longrightarrow>
            (\<exists>p. make_plan regionScores n cs t \<lparr>id_strategy = s, label_strategy = l\<rparr> = Inr p \<and>
                 instanceClass (civo p) = ''standard-medium'')"
  proof
    assume "regionScores \<noteq> []"
    from make_plan_best [OF this, of n cs t "\<lparr>id_strategy = s, label_strategy = l\<rparr>"]
    show "\<exists>p. make_plan regionScores n cs t \<lparr>id_strategy = s, label_strategy = l\<rparr> = Inr p \<and>
                 instanceClass (civo p) = ''standard-medium''"
      using b by auto
  qed
  show ?thesis using a b c by blast
qed

theorem unknown_strategy_defaults_witness:
  "''turbo'' \<notin> set [''max-green'', ''budget'', ''balanced''] \<and>
   getWeights ''turbo'' ''relaxed'' = getWeights ''balanced'' ''relaxed'' \<and>
   instanceClass_of ''turbo'' = ''standard-medium''"
proof -
  have h: "''turbo'' \<notin> set [''max-green'', ''budget'', ''balanced'']" by simp
  show ?thesis using unknown_strategy_defaults [OF h, of "''relaxed''"] h by blast
qed

subsection \<open>The carbon reading\<close>




subsection \<open>The exposed service of the manifest\<close>

lemma derived_name_Nil_iff: "derived_name n = [] \<longleftrightarrow> n = []"
  by (simp add: derived_name_def replace_unsafe_def toLowerCase_def)

lemma safeName_derived: "name c \<noteq> [] \<Longrightarrow> safeName c = derived_name (name c)"
  by (simp add: safeName_def derived_name_Nil_iff)

lemma gatewayName_bound:
  "gatewayName (filter (\<lambda>c. type c \<in> set runtimeTypes) cs)
     = map_option (\<lambda>c. derived_name (name c)) (bound_component cs)"
  by (simp add: gatewayName_def bound_component_def runtimeTypes_def Let_def
      split: option.splits list.splits)

lemma count_namespace: "count_list (namespace_lines p) ''kind: Service'' = 0"
  by (simp add: namespace_lines_def)

lemma count_deployment: "count_list (deployment_lines p r i n c) ''kind: Service'' = 0"
  by (simp add: deployment_lines_def Let_def)

lemma count_deployments:
  "count_list (concat (map (deployment_lines p r i n) cs)) ''kind: Service'' = 0"
  by (induction cs) (simp_all add: count_deployment)

lemma count_service: "count_list (service_lines gw) ''kind: Service'' = 1"
  by (simp add: service_lines_def)

lemma bound_component_runtime:
  "bound_component cs = Some c \<Longrightarrow> filter (\<lambda>c. type c \<in> set runtimeTypes) cs \<noteq> []"
  by (auto simp: bound_component_def runtimeTypes_def Let_def find_None_iff
      split: option.splits list.splits dest: find_Some_iff [THEN iffD1])

lemma service_block_count:
  assumes "bound_component cs = Some c"
  shows "count_list (manifest_lines p r i n cs) ''kind: Service'' = (if name c = [] then 0 else 1)"
    and "name c \<noteq> [] \<Longrightarrow>
      manifest_lines p r i n cs =
        namespace_lines p
        @ concat (map (deployment_lines p r i n) (filter (\<lambda>c. type c \<in> set runtimeTypes) cs))
        @ service_lines (safeName c)"
proof -
  have ne: "filter (\<lambda>c. type c \<in> set runtimeTypes) cs \<noteq> []"
    using assms by (rule bound_component_runtime)
  have gw: "gatewayName (filter (\<lambda>c. type c \<in> set runtimeTypes) cs) = Some (derived_name (name c))"
    using assms by (simp add: gatewayName_bound)
  show "count_list (manifest_lines p r i n cs) ''kind: Service'' = (if name c = [] then 0 else 1)"
    using ne gw
    by (simp add: manifest_lines_def Let_def count_namespace count_deployments count_service
        derived_name_Nil_iff)
  show "manifest_lines p r i n cs =
        namespace_lines p
        @ concat (map (deployment_lines p r i n) (filter (\<lambda>c. type c \<in> set runtimeTypes) cs))
        @ service_lines (safeName c)" if "name c \<noteq> []"
    using ne gw that
    by (simp add: manifest_lines_def Let_def derived_name_Nil_iff safeName_derived)
qed

text \<open>
  Claim C4 at a component list whose api-gateway has the empty name. The workload unit
  is named \<open>service\<close> by the fallback, but the name derived for the service is the
  empty string, which the test \<^verbatim>\<open>if (gatewayName)\<close> takes for absent: the manifest
  has the namespace and one Deployment and no Service block.
\<close>

theorem empty_name_gateway_has_no_service:
  "manifest_lines ''balanced'' ''FRA1'' ''standard-medium'' 1 [\<lparr>name = [], type = ''api-gateway''\<rparr>]
     = namespace_lines ''balanced''
       @ deployment_lines ''balanced'' ''FRA1'' ''standard-medium'' 1 \<lparr>name = [], type = ''api-gateway''\<rparr> \<and>
   count_list (manifest_lines ''balanced'' ''FRA1'' ''standard-medium'' 1
                 [\<lparr>name = [], type = ''api-gateway''\<rparr>]) ''kind: Service'' = 0 \<and>
   count_list (manifest_lines ''balanced'' ''FRA1'' ''standard-medium'' 1
                 [\<lparr>name = [], type = ''api-gateway''\<rparr>]) ''kind: Deployment'' = 1 \<and>
   count_list (manifest_lines ''balanced'' ''FRA1'' ''standard-medium'' 1
                 [\<lparr>name = [], type = ''api-gateway''\<rparr>]) ''  name: service'' = 1 \<and>
   safeName \<lparr>name = [], type = ''api-gateway''\<rparr> = ''service'' \<and>
   gatewayName [\<lparr>name = [], type = ''api-gateway''\<rparr>] = Some []"
  by (simp add: manifest_lines_def runtimeTypes_def gatewayName_def derived_name_def
      replace_unsafe_def toLowerCase_def namespace_lines_def deployment_lines_def safeName_def
      string_of_nat.simps Let_def)

end
